theory Spec2Isabelle
  imports Main
begin

section \<open>Byte strings and ASCII case\<close>

text \<open>
  \<^verbatim>\<open>QString\<close> and \<^verbatim>\<open>QByteArray\<close> values are modelled as \<^typ>\<open>string\<close>.
  The null/empty distinction of the Qt types is not represented: \<^verbatim>\<open>isEmpty()\<close> is
  \<open>s = []\<close>.
\<close>

definition upperCase :: string where
  "upperCase = ''ABCDEFGHIJKLMNOPQRSTUVWXYZ''"

definition lowerCase :: string where
  "lowerCase = ''abcdefghijklmnopqrstuvwxyz''"

definition digits :: string where
  "digits = ''0123456789''"

definition toLower :: "char \<Rightarrow> char" where
  "toLower c = (case map_of (zip upperCase lowerCase) c of None \<Rightarrow> c | Some l \<Rightarrow> l)"

definition isAlpha :: "char \<Rightarrow> bool" where
  "isAlpha c \<longleftrightarrow> c \<in> set upperCase \<or> c \<in> set lowerCase"

definition isDigit :: "char \<Rightarrow> bool" where
  "isDigit c \<longleftrightarrow> c \<in> set digits"

definition digitValue :: "char \<Rightarrow> nat" where
  "digitValue c = length (takeWhile (\<lambda>x. x \<noteq> c) digits)"

definition digitChar :: "nat \<Rightarrow> char" where
  "digitChar d = digits ! d"

fun numberOfDigits :: "nat \<Rightarrow> string \<Rightarrow> nat" where
  "numberOfDigits acc [] = acc"
| "numberOfDigits acc (c # cs) = numberOfDigits (10 * acc + digitValue c) cs"

function numberToString :: "nat \<Rightarrow> string" where
  "numberToString n =
     (if n < 10 then [digitChar n]
      else numberToString (n div 10) @ [digitChar (n mod 10)])"
  by pat_completeness auto
termination
  by (relation "measure id") auto

declare numberToString.simps [simp del]

text \<open>The part of a string before the first occurrence of a separator, and the part
  after it (\<open>None\<close> when the separator does not occur).\<close>

definition beforeFirst :: "char \<Rightarrow> string \<Rightarrow> string" where
  "beforeFirst c s = takeWhile (\<lambda>x. x \<noteq> c) s"

definition afterFirst :: "char \<Rightarrow> string \<Rightarrow> string option" where
  "afterFirst c s =
     (case dropWhile (\<lambda>x. x \<noteq> c) s of [] \<Rightarrow> None | _ # r \<Rightarrow> Some r)"

definition beforeLast :: "char \<Rightarrow> string \<Rightarrow> string" where
  "beforeLast c s = rev (case afterFirst c (rev s) of None \<Rightarrow> [] | Some r \<Rightarrow> r)"

definition afterLast :: "char \<Rightarrow> string \<Rightarrow> string option" where
  "afterLast c s =
     (if c \<in> set s then Some (rev (beforeFirst c (rev s))) else None)"

section \<open>The URL type of the toolkit\<close>

text \<open>
  \<^verbatim>\<open>QUrl\<close> is a class of the Qt toolkit, not of this repository. The downloader uses
  its constructor from a string, \<^verbatim>\<open>scheme()\<close>, \<^verbatim>\<open>host()\<close>, \<^verbatim>\<open>toString()\<close> and
  \<^verbatim>\<open>isValid()\<close>. The model below is the generic URI syntax that \<^verbatim>\<open>QUrl\<close> implements
  (scheme, authority with user info, host and port, path, query, fragment), with these
  simplifications: no percent-encoding or IDN normalisation, no IP-literal hosts, and
  no check of the characters of a host name.
\<close>

record QUrl =
  u_scheme :: string
  u_hasAuthority :: bool
  u_userInfo :: string
  u_host :: string
  u_port :: "nat option"
  u_path :: string
  u_query :: "string option"
  u_fragment :: "string option"
  u_parseError :: bool

definition emptyUrl :: QUrl where
  "emptyUrl = \<lparr>u_scheme = [], u_hasAuthority = False, u_userInfo = [], u_host = [],
     u_port = None, u_path = [], u_query = None, u_fragment = None, u_parseError = False\<rparr>"

text \<open>A scheme is a letter followed by letters, digits, \<open>+\<close>, \<open>-\<close> or \<open>.\<close>.\<close>

definition validScheme :: "string \<Rightarrow> bool" where
  "validScheme s =
     (case s of [] \<Rightarrow> False
      | c # cs \<Rightarrow> isAlpha c \<and>
          list_all (\<lambda>x. isAlpha x \<or> isDigit x \<or> x \<in> set ''+-.'') cs)"

text \<open>The port of an authority: the text after the last colon of the host part. No
  digits after the colon is no port; anything that is not a number up to 65535 is a
  parse error.\<close>

definition parsePort :: "string option \<Rightarrow> nat option \<times> bool" where
  "parsePort p =
     (case p of None \<Rightarrow> (None, False)
      | Some ds \<Rightarrow>
          if ds = [] then (None, False)
          else if list_all isDigit ds \<and> numberOfDigits 0 ds \<le> 65535
          then (Some (numberOfDigits 0 ds), False)
          else (None, True))"

definition setAuthority :: "string \<Rightarrow> QUrl \<Rightarrow> QUrl" where
  "setAuthority auth u =
     (let userInfo = (case afterFirst (CHR ''@'') auth of
                        None \<Rightarrow> [] | Some _ \<Rightarrow> beforeFirst (CHR ''@'') auth);
          hostPort = (case afterFirst (CHR ''@'') auth of None \<Rightarrow> auth | Some r \<Rightarrow> r);
          colon = afterLast (CHR '':'') hostPort;
          host = (case colon of None \<Rightarrow> hostPort
                  | Some _ \<Rightarrow> beforeLast (CHR '':'') hostPort);
          (port, err) = parsePort colon
      in u\<lparr>u_hasAuthority := True, u_userInfo := userInfo, u_host := map toLower host,
            u_port := port, u_parseError := err\<rparr>)"

text \<open>\<^verbatim>\<open>QUrl(const QString&)\<close>: the fragment is split off at the first \<open>#\<close>, the
  query at the first \<open>?\<close> before it, the scheme at the first \<open>:\<close> when what stands
  before it is a scheme, and the authority is what follows \<open>//\<close> up to the next
  \<open>/\<close>.\<close>

definition QUrl_fromString :: "string \<Rightarrow> QUrl" where
  "QUrl_fromString s =
     (let fragment = afterFirst (CHR ''#'') s;
          s1 = beforeFirst (CHR ''#'') s;
          query = afterFirst (CHR ''?'') s1;
          s2 = beforeFirst (CHR ''?'') s1;
          pre = beforeFirst (CHR '':'') s2;
          (scheme, hier) = (case afterFirst (CHR '':'') s2 of
                              None \<Rightarrow> ([], s2)
                            | Some r \<Rightarrow> if validScheme pre then (map toLower pre, r)
                                        else ([], s2));
          u0 = emptyUrl\<lparr>u_scheme := scheme, u_query := query, u_fragment := fragment\<rparr>
      in if take 2 hier = ''//''
         then (setAuthority (beforeFirst (CHR ''/'') (drop 2 hier)) u0)
                \<lparr>u_path := dropWhile (\<lambda>x. x \<noteq> CHR ''/'') (drop 2 hier)\<rparr>
         else u0\<lparr>u_path := hier\<rparr>)"

definition isEmpty :: "QUrl \<Rightarrow> bool" where
  "isEmpty u \<longleftrightarrow>
     u_scheme u = [] \<and> \<not> u_hasAuthority u \<and> u_path u = [] \<and>
     u_query u = None \<and> u_fragment u = None"

text \<open>\<^verbatim>\<open>QUrl::isValid()\<close>: the URL is not empty, it parsed without error, and its
  components can be written back: a path that does not start with \<open>/\<close> needs the
  authority to be absent and, without a scheme, no colon in its first segment; a path
  that starts with \<open>//\<close> needs an authority.\<close>

definition isValid :: "QUrl \<Rightarrow> bool" where
  "isValid u \<longleftrightarrow>
     \<not> isEmpty u \<and> \<not> u_parseError u \<and>
     (case u_path u of
        [] \<Rightarrow> True
      | c # cs \<Rightarrow>
          if c = CHR ''/'' then u_hasAuthority u \<or> take 1 cs \<noteq> ''/''
          else if u_hasAuthority u then False
          else if u_scheme u = []
          then CHR '':'' \<notin> set (beforeFirst (CHR ''/'') (u_path u))
          else True)"

definition scheme :: "QUrl \<Rightarrow> string" where
  "scheme u = u_scheme u"

definition host :: "QUrl \<Rightarrow> string" where
  "host u = u_host u"

text \<open>\<^verbatim>\<open>QUrl::toString()\<close>: empty for an invalid URL, else the components in order.\<close>

definition toString :: "QUrl \<Rightarrow> string" where
  "toString u =
     (if \<not> isValid u then []
      else (if u_scheme u = [] then [] else u_scheme u @ '':'')
         @ (if u_hasAuthority u
            then ''//'' @ (if u_userInfo u = [] then [] else u_userInfo u @ ''@'')
                 @ u_host u
                 @ (case u_port u of None \<Rightarrow> [] | Some p \<Rightarrow> '':'' @ numberToString p)
            else [])
         @ u_path u
         @ (case u_query u of None \<Rightarrow> [] | Some q \<Rightarrow> ''?'' @ q)
         @ (case u_fragment u of None \<Rightarrow> [] | Some f \<Rightarrow> ''#'' @ f))"

section \<open>Requests, replies and the transport\<close>

text \<open>\<^verbatim>\<open>QNetworkAccessManager::Operation\<close>.\<close>

datatype Operation =
  UnknownOperation | HeadOperation | GetOperation | PutOperation | PostOperation
  | DeleteOperation | CustomOperation

text \<open>\<^verbatim>\<open>QNetworkReply::NetworkError\<close>: the codes the downloader's callers look at, and
  the rest by number.\<close>

datatype NetworkError =
  NoError | ConnectionRefusedError | RemoteHostClosedError | HostNotFoundError
  | TimeoutError | OperationCanceledError | OtherNetworkError nat

text \<open>A \<^verbatim>\<open>QNetworkRequest\<close>: its URL and its raw headers in the order they were set.
  Header names compare without regard to case; setting a header replaces every header
  of that name.\<close>

record QNetworkRequest =
  rq_url :: QUrl
  rq_rawHeaders :: "(string \<times> string) list"

definition emptyRequest :: QNetworkRequest where
  "emptyRequest = \<lparr>rq_url = emptyUrl, rq_rawHeaders = []\<rparr>"

definition sameHeaderName :: "string \<Rightarrow> string \<Rightarrow> bool" where
  "sameHeaderName a b \<longleftrightarrow> map toLower a = map toLower b"

definition rawHeader :: "string \<Rightarrow> QNetworkRequest \<Rightarrow> string" where
  "rawHeader name rq =
     (case filter (\<lambda>(k, v). sameHeaderName k name) (rq_rawHeaders rq) of
        [] \<Rightarrow> []
      | (k, v) # _ \<Rightarrow> v)"

definition setRawHeader :: "string \<Rightarrow> string \<Rightarrow> QNetworkRequest \<Rightarrow> QNetworkRequest" where
  "setRawHeader name val rq =
     rq\<lparr>rq_rawHeaders :=
          filter (\<lambda>(k, v). \<not> sameHeaderName k name) (rq_rawHeaders rq) @ [(name, val)]\<rparr>"

definition setUrl :: "QUrl \<Rightarrow> QNetworkRequest \<Rightarrow> QNetworkRequest" where
  "setUrl u rq = rq\<lparr>rq_url := u\<rparr>"

text \<open>A \<^verbatim>\<open>QNetworkReply\<close>. The first group of fields is fixed when the transport
  creates the reply (\<^verbatim>\<open>get\<close>, \<^verbatim>\<open>post\<close>, \<^verbatim>\<open>put\<close>, \<^verbatim>\<open>deleteResource\<close>) and when the
  downloader sets the three dynamic properties; \<open>rp_aborted\<close> records \<^verbatim>\<open>abort()\<close>; the
  last group is what the transport has put into the reply when it signals
  \<^verbatim>\<open>finished\<close>: the redirection target attribute (the empty URL when there is none),
  the body \<^verbatim>\<open>readAll()\<close> returns, the content-type header and the error code.\<close>

record QNetworkReply =
  rp_operation :: Operation
  rp_request :: QNetworkRequest
  rp_outgoingData :: "string option"
  rp_protected :: bool
  rp_username :: string
  rp_password :: string
  rp_aborted :: bool
  rp_redirectionTarget :: QUrl
  rp_body :: string
  rp_contentType :: "string option"
  rp_error :: NetworkError

definition newReply :: "Operation \<Rightarrow> QNetworkRequest \<Rightarrow> string option \<Rightarrow> QNetworkReply" where
  "newReply op rq body =
     \<lparr>rp_operation = op, rp_request = rq, rp_outgoingData = body,
      rp_protected = False, rp_username = [], rp_password = [], rp_aborted = False,
      rp_redirectionTarget = emptyUrl, rp_body = [], rp_contentType = None,
      rp_error = NoError\<rparr>"

definition abort :: "QNetworkReply \<Rightarrow> QNetworkReply" where
  "abort rp = rp\<lparr>rp_aborted := True\<rparr>"

text \<open>A single-shot \<^verbatim>\<open>QTimer\<close>: its interval in milliseconds and whether it is
  running.\<close>

record QTimer =
  t_interval :: int
  t_active :: bool

definition setInterval :: "int \<Rightarrow> QTimer \<Rightarrow> QTimer" where
  "setInterval ms t = t\<lparr>t_interval := ms\<rparr>"

definition start :: "QTimer \<Rightarrow> QTimer" where
  "start t = t\<lparr>t_active := True\<rparr>"

definition stop :: "QTimer \<Rightarrow> QTimer" where
  "stop t = t\<lparr>t_active := False\<rparr>"

text \<open>Whether a running timer has elapsed after \<open>ms\<close> milliseconds without a
  restart. An interval of 0 elapses at once; the toolkit refuses to arm a timer with a
  negative interval, so such a timer never elapses.\<close>

definition elapsed :: "QTimer \<Rightarrow> int \<Rightarrow> bool" where
  "elapsed t ms \<longleftrightarrow> t_active t \<and> 0 \<le> t_interval t \<and> t_interval t \<le> ms"

section \<open>The downloader\<close>

text \<open>The signals of \<^verbatim>\<open>Downloader\<close>.\<close>

datatype Signal =
  Progress int int
  | Completed NetworkError string

fun isCompleted :: "Signal \<Rightarrow> bool" where
  "isCompleted (Completed e d) = True"
| "isCompleted (Progress r t) = False"

text \<open>The members of \<^verbatim>\<open>Downloader\<close>. \<open>m_customHeaders\<close> is the hash of custom
  headers, as the list of its entries in iteration order (keys unique). \<open>emitted\<close> is
  the sequence of signals emitted so far, oldest first.\<close>

record Downloader =
  m_activeReply :: "QNetworkReply option"
  m_timer :: QTimer
  m_inputData :: string
  m_targetProtected :: bool
  m_targetUsername :: string
  m_targetPassword :: string
  m_lastOutputData :: string
  m_lastContentType :: "string option"
  m_lastOutputError :: NetworkError
  m_customHeaders :: "(string \<times> string) list"
  emitted :: "Signal list"

text \<open>A dereference of a null \<^verbatim>\<open>m_activeReply\<close>.\<close>

datatype Failure = NullDereference

text \<open>\<^verbatim>\<open>QHash::insert\<close>: the value of an existing key is replaced.\<close>

fun hashInsert :: "string \<Rightarrow> string \<Rightarrow> (string \<times> string) list \<Rightarrow> (string \<times> string) list" where
  "hashInsert k v [] = [(k, v)]"
| "hashInsert k v ((k', v') # kvs) =
     (if k' = k then (k, v) # kvs else (k', v') # hashInsert k v kvs)"

definition hashValue :: "string \<Rightarrow> (string \<times> string) list \<Rightarrow> string" where
  "hashValue k kvs = (case map_of kvs k of None \<Rightarrow> [] | Some v \<Rightarrow> v)"

text \<open>The constructor; \<^verbatim>\<open>DOWNLOAD_TIMEOUT\<close> is a macro of another header and is
  taken as a parameter.\<close>

definition Downloader_new :: "int \<Rightarrow> Downloader" where
  "Downloader_new DOWNLOAD_TIMEOUT =
     \<lparr>m_activeReply = None,
      m_timer = \<lparr>t_interval = DOWNLOAD_TIMEOUT, t_active = False\<rparr>,
      m_inputData = [], m_targetProtected = False, m_targetUsername = [],
      m_targetPassword = [], m_lastOutputData = [], m_lastContentType = None,
      m_lastOutputError = NoError, m_customHeaders = [], emitted = []\<rparr>"

text \<open>\<^verbatim>\<open>HTTP_HEADERS_CONTENT_TYPE\<close> is a macro of another header; it names the
  content-type header.\<close>

definition HTTP_HEADERS_CONTENT_TYPE :: string where
  "HTTP_HEADERS_CONTENT_TYPE = ''Content-Type''"

text \<open>The four \<^verbatim>\<open>run...Request\<close> members: start the timer, hand the request to the
  transport, and copy the stored credentials onto the reply it returns.\<close>

definition runRequest :: "Operation \<Rightarrow> QNetworkRequest \<Rightarrow> string option \<Rightarrow> Downloader \<Rightarrow> Downloader" where
  "runRequest op request body d =
     d\<lparr>m_timer := start (m_timer d),
       m_activeReply :=
         Some ((newReply op request body)
                 \<lparr>rp_protected := m_targetProtected d,
                  rp_username := m_targetUsername d,
                  rp_password := m_targetPassword d\<rparr>)\<rparr>"

definition runDeleteRequest :: "QNetworkRequest \<Rightarrow> Downloader \<Rightarrow> Downloader" where
  "runDeleteRequest request d = runRequest DeleteOperation request None d"

definition runPutRequest :: "QNetworkRequest \<Rightarrow> string \<Rightarrow> Downloader \<Rightarrow> Downloader" where
  "runPutRequest request data d = runRequest PutOperation request (Some data) d"

definition runPostRequest :: "QNetworkRequest \<Rightarrow> string \<Rightarrow> Downloader \<Rightarrow> Downloader" where
  "runPostRequest request data d = runRequest PostOperation request (Some data) d"

definition runGetRequest :: "QNetworkRequest \<Rightarrow> Downloader \<Rightarrow> Downloader" where
  "runGetRequest request d = runRequest GetOperation request None d"

text \<open>The loop of \<^verbatim>\<open>manipulateData\<close> over the custom headers.\<close>

fun mergeHeaders :: "(string \<times> string) list \<Rightarrow> QNetworkRequest \<Rightarrow> QNetworkRequest" where
  "mergeHeaders [] request = request"
| "mergeHeaders ((k, v) # kvs) request = mergeHeaders kvs (setRawHeader k v request)"

definition defaultContentType :: "Operation \<Rightarrow> QNetworkRequest \<Rightarrow> QNetworkRequest" where
  "defaultContentType op request =
     (if op = PostOperation \<and> rawHeader HTTP_HEADERS_CONTENT_TYPE request = []
      then setRawHeader HTTP_HEADERS_CONTENT_TYPE ''application/x-www-form-urlencoded'' request
      else request)"

definition manipulateData ::
  "string \<Rightarrow> Operation \<Rightarrow> string \<Rightarrow> int \<Rightarrow> bool \<Rightarrow> string \<Rightarrow> string \<Rightarrow> Downloader \<Rightarrow> Downloader" where
  "manipulateData url operation data timeout protected_contents username password d =
     (let request = defaultContentType operation (mergeHeaders (m_customHeaders d) emptyRequest);
          d1 = d\<lparr>m_inputData := data\<rparr>;
          d2 = d1\<lparr>m_timer := setInterval timeout (m_timer d1)\<rparr>;
          request' = setUrl (QUrl_fromString url) request;
          d3 = d2\<lparr>m_targetProtected := protected_contents,
                  m_targetUsername := username,
                  m_targetPassword := password\<rparr>
      in if operation = PostOperation then runPostRequest request' (m_inputData d3) d3
         else if operation = GetOperation then runGetRequest request' d3
         else if operation = PutOperation then runPutRequest request' (m_inputData d3) d3
         else if operation = DeleteOperation then runDeleteRequest request' d3
         else d3)"

definition downloadFile :: "string \<Rightarrow> int \<Rightarrow> bool \<Rightarrow> string \<Rightarrow> string \<Rightarrow> Downloader \<Rightarrow> Downloader" where
  "downloadFile url timeout protected_contents username password d =
     manipulateData url GetOperation [] timeout protected_contents username password d"

definition uploadFile ::
  "string \<Rightarrow> string \<Rightarrow> int \<Rightarrow> bool \<Rightarrow> string \<Rightarrow> string \<Rightarrow> Downloader \<Rightarrow> Downloader" where
  "uploadFile url data timeout protected_contents username password d =
     manipulateData url PostOperation data timeout protected_contents username password d"

text \<open>\<^verbatim>\<open>Downloader::finished()\<close>; \<open>reply\<close> is the sender of the signal. Both
  branches call \<^verbatim>\<open>deleteLater\<close> through \<^verbatim>\<open>m_activeReply\<close>, which fails when that
  pointer is null.\<close>

definition finished :: "QNetworkReply \<Rightarrow> Downloader \<Rightarrow> Failure + Downloader" where
  "finished reply d =
     (let reply_operation = rp_operation reply;
          d1 = d\<lparr>m_timer := stop (m_timer d)\<rparr>;
          redirection_url = rp_redirectionTarget reply
      in if isValid redirection_url
         then (let request =
                     (if host redirection_url = []
                      then setUrl (QUrl_fromString
                                     (scheme (rq_url (rp_request reply)) @ ''://''
                                      @ host (rq_url (rp_request reply))
                                      @ toString redirection_url))
                             (rp_request reply)
                      else setUrl redirection_url (rp_request reply))
               in case m_activeReply d1 of
                    None \<Rightarrow> Inl NullDereference
                  | Some active \<Rightarrow>
                      (let d2 = d1\<lparr>m_activeReply := None\<rparr>
                       in Inr (if reply_operation = GetOperation
                               then runGetRequest request d2
                               else if reply_operation = PostOperation
                               then runPostRequest request (m_inputData d2) d2
                               else if reply_operation = PutOperation
                               then runPutRequest request (m_inputData d2) d2
                               else if reply_operation = DeleteOperation
                               then runDeleteRequest request d2
                               else d2)))
         else (let d2 = d1\<lparr>m_lastOutputData := rp_body reply,
                           m_lastContentType := rp_contentType reply,
                           m_lastOutputError := rp_error reply\<rparr>
               in case m_activeReply d2 of
                    None \<Rightarrow> Inl NullDereference
                  | Some active \<Rightarrow>
                      (let d3 = d2\<lparr>m_activeReply := None\<rparr>
                       in Inr (d3\<lparr>emitted := emitted d3
                                  @ [Completed (m_lastOutputError d3) (m_lastOutputData d3)]\<rparr>))))"

definition progressInternal :: "int \<Rightarrow> int \<Rightarrow> Downloader \<Rightarrow> Downloader" where
  "progressInternal bytes_received bytes_total d =
     (let d1 = (if t_interval (m_timer d) > 0 then d\<lparr>m_timer := start (m_timer d)\<rparr> else d)
      in d1\<lparr>emitted := emitted d1 @ [Progress bytes_received bytes_total]\<rparr>)"

definition lastContentType :: "Downloader \<Rightarrow> string option" where
  "lastContentType d = m_lastContentType d"

definition cancel :: "Downloader \<Rightarrow> Downloader" where
  "cancel d =
     (case m_activeReply d of
        None \<Rightarrow> d
      | Some rp \<Rightarrow> d\<lparr>m_activeReply := Some (abort rp)\<rparr>)"

definition appendRawHeader :: "string \<Rightarrow> string \<Rightarrow> Downloader \<Rightarrow> Downloader" where
  "appendRawHeader name val d =
     (if val \<noteq> [] then d\<lparr>m_customHeaders := hashInsert name val (m_customHeaders d)\<rparr> else d)"

definition lastOutputError :: "Downloader \<Rightarrow> NetworkError" where
  "lastOutputError d = m_lastOutputError d"

definition lastOutputData :: "Downloader \<Rightarrow> string" where
  "lastOutputData d = m_lastOutputData d"

section \<open>The timer, the transport and runs of the downloader\<close>

text \<open>The constructor connects the timer's \<^verbatim>\<open>timeout\<close> signal to \<^verbatim>\<open>cancel\<close>. A
  single-shot timer that elapses stops and then emits the signal.\<close>

definition timerTimeout :: "Downloader \<Rightarrow> Downloader" where
  "timerTimeout d = cancel (d\<lparr>m_timer := stop (m_timer d)\<rparr>)"

text \<open>What the transport reports when an exchange ends. An aborted reply ends with
  the error code of a cancelled operation.\<close>

record Response =
  rs_redirectionTarget :: QUrl
  rs_body :: string
  rs_contentType :: "string option"
  rs_error :: NetworkError

definition completeReply :: "Response \<Rightarrow> QNetworkReply \<Rightarrow> QNetworkReply" where
  "completeReply rs rp =
     rp\<lparr>rp_redirectionTarget := rs_redirectionTarget rs,
        rp_body := rs_body rs,
        rp_contentType := rs_contentType rs,
        rp_error := (if rp_aborted rp then OperationCanceledError else rs_error rs)\<rparr>"

text \<open>The callbacks the event loop delivers to a downloader: a progress tick or the
  end of the exchange of the active reply (none when no reply is active), a stretch of
  silence of so many milliseconds, and a call of \<^verbatim>\<open>cancel\<close> from outside.\<close>

datatype Event =
  ProgressTick int int
  | Finish Response
  | Silence int
  | ExternalCancel

fun step :: "Event \<Rightarrow> Downloader \<Rightarrow> Failure + Downloader" where
  "step (ProgressTick r t) d =
     (case m_activeReply d of None \<Rightarrow> Inr d | Some rp \<Rightarrow> Inr (progressInternal r t d))"
| "step (Finish rs) d =
     (case m_activeReply d of None \<Rightarrow> Inr d | Some rp \<Rightarrow> finished (completeReply rs rp) d)"
| "step (Silence ms) d = Inr (if elapsed (m_timer d) ms then timerTimeout d else d)"
| "step ExternalCancel d = Inr (cancel d)"

fun run :: "Event list \<Rightarrow> Downloader \<Rightarrow> Failure + Downloader" where
  "run [] d = Inr d"
| "run (e # es) d = (case step e d of Inl f \<Rightarrow> Inl f | Inr d' \<Rightarrow> run es d')"

text \<open>The end of an exchange without a valid redirection target ends the redirect
  chain.\<close>

fun endsChain :: "Event \<Rightarrow> bool" where
  "endsChain (Finish rs) = (\<not> isValid (rs_redirectionTarget rs))"
| "endsChain (ProgressTick r t) = False"
| "endsChain (Silence ms) = False"
| "endsChain ExternalCancel = False"

section \<open>Notions used in the properties\<close>

text \<open>The operations for which a request is started.\<close>

definition dispatchable :: "Operation \<Rightarrow> bool" where
  "dispatchable op \<longleftrightarrow>
     op = GetOperation \<or> op = PostOperation \<or> op = PutOperation \<or> op = DeleteOperation"

text \<open>The last outcome, as the three accessors return it.\<close>

definition lastOutcome :: "Downloader \<Rightarrow> string \<times> string option \<times> NetworkError" where
  "lastOutcome d = (lastOutputData d, lastContentType d, lastOutputError d)"

text \<open>The URL that \<^verbatim>\<open>finished\<close> gives the follow-up request of a redirection, and
  the body a request of an operation is started with.\<close>

definition redirectUrl :: "QUrl \<Rightarrow> QUrl \<Rightarrow> QUrl" where
  "redirectUrl requestUrl redirection_url =
     (if host redirection_url = []
      then QUrl_fromString
             (scheme requestUrl @ ''://'' @ host requestUrl @ toString redirection_url)
      else redirection_url)"

definition bodyOf :: "Operation \<Rightarrow> string \<Rightarrow> string option" where
  "bodyOf op data = (if op = PostOperation \<or> op = PutOperation then Some data else None)"

text \<open>A host name that can stand in a URL as it is: lower case, none of the
  delimiters of a URL.\<close>

definition plainHost :: "string \<Rightarrow> bool" where
  "plainHost h \<longleftrightarrow> list_all (\<lambda>c. c \<notin> set ''/?#@:'') h \<and> map toLower h = h"

text \<open>The request of the reply that is active after \<^verbatim>\<open>finished\<close>, if any: the
  follow-up request of a redirection.\<close>

definition followUpRequest :: "QNetworkReply \<Rightarrow> Downloader \<Rightarrow> QNetworkRequest option" where
  "followUpRequest reply d =
     (case finished reply d of
        Inl f \<Rightarrow> None
      | Inr d' \<Rightarrow> map_option rp_request (m_activeReply d'))"

text \<open>The URL of the request that is active after a run, if any.\<close>

definition activeUrlAfter :: "Event list \<Rightarrow> Downloader \<Rightarrow> QUrl option" where
  "activeUrlAfter es d =
     (case run es d of
        Inl f \<Rightarrow> None
      | Inr d' \<Rightarrow> map_option (\<lambda>rp. rq_url (rp_request rp)) (m_activeReply d'))"

text \<open>Inside a redirect chain a reply is active, for an operation that is
  dispatched.\<close>

definition chainInv :: "Downloader \<Rightarrow> bool" where
  "chainInv d \<longleftrightarrow> (\<exists>rp. m_activeReply d = Some rp \<and> dispatchable (rp_operation rp))"

text \<open>The reply that is active after \<^verbatim>\<open>finished\<close>, if any: the reply of the
  follow-up request of a redirection.\<close>

definition followUpReply :: "QNetworkReply \<Rightarrow> Downloader \<Rightarrow> QNetworkReply option" where
  "followUpReply reply d =
     (case finished reply d of
        Inl f \<Rightarrow> None
      | Inr d' \<Rightarrow> m_activeReply d')"

text \<open>The value the custom header mapping gives a header name: that of the last entry,
  in iteration order, whose name is that name without regard to case, and the empty
  value when there is none.\<close>

definition customValue :: "string \<Rightarrow> (string \<times> string) list \<Rightarrow> string" where
  "customValue name kvs =
     (case filter (\<lambda>(k, v). sameHeaderName k name) (rev kvs) of
        [] \<Rightarrow> []
      | (k, v) # _ \<Rightarrow> v)"

section \<open>Scenarios\<close>

text \<open>The answer of a server that redirects to the given target and sends no body, and
  an answer with a body and no redirection.\<close>

definition redirectTo :: "QUrl \<Rightarrow> Response" where
  "redirectTo target =
     \<lparr>rs_redirectionTarget = target, rs_body = [], rs_contentType = None, rs_error = NoError\<rparr>"

definition plainAnswer :: "string \<Rightarrow> Response" where
  "plainAnswer body =
     \<lparr>rs_redirectionTarget = emptyUrl, rs_body = body, rs_contentType = Some ''text/plain'',
      rs_error = NoError\<rparr>"

text \<open>A fresh downloader that has dispatched a GET with a timeout of five seconds, and
  the reply the transport returned for it.\<close>

definition exampleGet :: Downloader where
  "exampleGet = downloadFile ''http://example.com/old'' 5000 False [] [] (Downloader_new 5000)"

definition exampleGetReply :: QNetworkReply where
  "exampleGetReply =
     newReply GetOperation (setUrl (QUrl_fromString ''http://example.com/old'') emptyRequest) None"

text \<open>A fresh downloader that has dispatched a POST to a protected target.\<close>

definition examplePost :: Downloader where
  "examplePost =
     uploadFile ''http://example.com/form'' ''a=1'' 5000 True ''user'' ''secret''
       (Downloader_new 5000)"

definition examplePostReply :: QNetworkReply where
  "examplePostReply =
     (newReply PostOperation
        (setUrl (QUrl_fromString ''http://example.com/form'')
           (setRawHeader HTTP_HEADERS_CONTENT_TYPE ''application/x-www-form-urlencoded''
              emptyRequest))
        (Some ''a=1''))
       \<lparr>rp_protected := True, rp_username := ''user'', rp_password := ''secret''\<rparr>"

text \<open>A fresh downloader that has dispatched a DELETE with a stored body, and the
  reply the transport returned for it.\<close>

definition exampleDelete :: Downloader where
  "exampleDelete =
     manipulateData ''http://example.com/item'' DeleteOperation ''xyz'' 5000 False [] []
       (Downloader_new 5000)"

definition exampleDeleteReply :: QNetworkReply where
  "exampleDeleteReply =
     newReply DeleteOperation
       (setUrl (QUrl_fromString ''http://example.com/item'') emptyRequest) None"

text \<open>The same GET with a timeout of zero, and a GET to a URL with user info and a
  port.\<close>

definition exampleGetNoTimeout :: Downloader where
  "exampleGetNoTimeout =
     downloadFile ''http://example.com/old'' 0 False [] [] (Downloader_new 5000)"

definition exampleGetPort :: Downloader where
  "exampleGetPort =
     downloadFile ''http://user:pw@example.com:8080/old'' 5000 False [] [] (Downloader_new 5000)"

section \<open>Evaluation rules\<close>

lemmas url_eval = QUrl_fromString_def beforeFirst_def afterFirst_def afterLast_def beforeLast_def
  setAuthority_def validScheme_def isAlpha_def isDigit_def toLower_def emptyUrl_def parsePort_def
  digitValue_def upperCase_def lowerCase_def digits_def toString_def isValid_def isEmpty_def
  numberToString.simps digitChar_def scheme_def host_def

lemmas run_defs = runGetRequest_def runPostRequest_def runPutRequest_def runDeleteRequest_def

lemmas scenario_eval = exampleGet_def exampleGetReply_def examplePost_def exampleGetNoTimeout_def
  exampleGetPort_def downloadFile_def uploadFile_def manipulateData_def Downloader_new_def
  run_defs runRequest_def newReply_def start_def defaultContentType_def emptyRequest_def
  setUrl_def setInterval_def rawHeader_def setRawHeader_def sameHeaderName_def
  HTTP_HEADERS_CONTENT_TYPE_def

section \<open>The effect of the operations\<close>

lemma map_of_hashInsert: "map_of (hashInsert k v kvs) k = Some v"
  by (induction kvs) auto

lemma hashValue_hashInsert: "hashValue k (hashInsert k v kvs) = v"
  by (simp add: hashValue_def map_of_hashInsert)

lemma rawHeader_setRawHeader: "rawHeader name (setRawHeader name v rq) = v"
  by (simp add: rawHeader_def setRawHeader_def sameHeaderName_def filter_filter case_prod_beta)

lemma rawHeader_setUrl: "rawHeader name (setUrl u rq) = rawHeader name rq"
  by (simp add: rawHeader_def setUrl_def)

lemma rq_rawHeaders_setUrl: "rq_rawHeaders (setUrl u rq) = rq_rawHeaders rq"
  by (simp add: setUrl_def)

lemma rq_url_setUrl: "rq_url (setUrl u rq) = u"
  by (simp add: setUrl_def)

lemma runRequest_fields:
  "m_activeReply (runRequest op request body d) =
     Some ((newReply op request body)
             \<lparr>rp_protected := m_targetProtected d, rp_username := m_targetUsername d,
              rp_password := m_targetPassword d\<rparr>)"
  "m_timer (runRequest op request body d) = start (m_timer d)"
  "m_inputData (runRequest op request body d) = m_inputData d"
  "m_targetProtected (runRequest op request body d) = m_targetProtected d"
  "m_targetUsername (runRequest op request body d) = m_targetUsername d"
  "m_targetPassword (runRequest op request body d) = m_targetPassword d"
  "m_lastOutputData (runRequest op request body d) = m_lastOutputData d"
  "m_lastContentType (runRequest op request body d) = m_lastContentType d"
  "m_lastOutputError (runRequest op request body d) = m_lastOutputError d"
  "m_customHeaders (runRequest op request body d) = m_customHeaders d"
  "emitted (runRequest op request body d) = emitted d"
  by (simp_all add: runRequest_def)

lemma manipulateData_run:
  assumes "dispatchable op"
  shows "manipulateData url op data timeout prot user pw d =
     runRequest op
       (setUrl (QUrl_fromString url)
          (defaultContentType op (mergeHeaders (m_customHeaders d) emptyRequest)))
       (bodyOf op data)
       (d\<lparr>m_inputData := data, m_timer := setInterval timeout (m_timer d),
          m_targetProtected := prot, m_targetUsername := user, m_targetPassword := pw\<rparr>)"
  using assms by (auto simp: manipulateData_def dispatchable_def Let_def run_defs bodyOf_def)

lemma manipulateData_frame:
  "m_lastOutputData (manipulateData url op data timeout prot user pw d) = m_lastOutputData d"
  "m_lastContentType (manipulateData url op data timeout prot user pw d) = m_lastContentType d"
  "m_lastOutputError (manipulateData url op data timeout prot user pw d) = m_lastOutputError d"
  "emitted (manipulateData url op data timeout prot user pw d) = emitted d"
  by (simp_all add: manipulateData_def Let_def run_defs runRequest_fields)

lemma finished_redirect:
  assumes "isValid (rp_redirectionTarget reply)" "m_activeReply d = Some a"
    "dispatchable (rp_operation reply)"
  shows "finished reply d =
     Inr (runRequest (rp_operation reply)
            (setUrl (redirectUrl (rq_url (rp_request reply)) (rp_redirectionTarget reply))
               (rp_request reply))
            (bodyOf (rp_operation reply) (m_inputData d))
            (d\<lparr>m_timer := stop (m_timer d), m_activeReply := None\<rparr>))"
  using assms
  by (auto simp: finished_def dispatchable_def Let_def run_defs bodyOf_def redirectUrl_def)

lemma finished_redirect_frame:
  assumes "isValid (rp_redirectionTarget reply)" "finished reply d = Inr d'"
  shows "m_lastOutputData d' = m_lastOutputData d" "m_lastContentType d' = m_lastContentType d"
    "m_lastOutputError d' = m_lastOutputError d" "emitted d' = emitted d"
  using assms
  by (auto simp: finished_def Let_def run_defs runRequest_fields split: option.splits if_splits)

lemma finished_final:
  assumes "\<not> isValid (rp_redirectionTarget reply)" "m_activeReply d = Some a"
  shows "finished reply d =
     Inr (d\<lparr>m_timer := stop (m_timer d), m_lastOutputData := rp_body reply,
            m_lastContentType := rp_contentType reply, m_lastOutputError := rp_error reply,
            m_activeReply := None,
            emitted := emitted d @ [Completed (rp_error reply) (rp_body reply)]\<rparr>)"
  using assms by (simp add: finished_def Let_def)

lemma finished_timer_irrelevant:
  "finished reply (d\<lparr>m_timer := stop (m_timer d)\<rparr>) = finished reply d"
  by (simp add: finished_def stop_def Let_def)

lemma lastOutcome_eq:
  "lastOutcome d' = lastOutcome d \<longleftrightarrow>
     m_lastOutputData d' = m_lastOutputData d \<and> m_lastContentType d' = m_lastContentType d
     \<and> m_lastOutputError d' = m_lastOutputError d"
  by (auto simp: lastOutcome_def lastOutputData_def lastContentType_def lastOutputError_def)

lemma cancel_frame:
  "lastOutcome (cancel d) = lastOutcome d" "emitted (cancel d) = emitted d"
  "m_timer (cancel d) = m_timer d"
  "m_activeReply (cancel d) = map_option abort (m_activeReply d)"
  by (simp_all add: cancel_def lastOutcome_eq split: option.splits)

lemma cancel_stop_commute:
  "cancel (d\<lparr>m_timer := stop (m_timer d)\<rparr>) = (cancel d)\<lparr>m_timer := stop (m_timer (cancel d))\<rparr>"
  by (simp add: cancel_def split: option.splits)

lemma timerTimeout_frame:
  "lastOutcome (timerTimeout d) = lastOutcome d" "emitted (timerTimeout d) = emitted d"
  "m_activeReply (timerTimeout d) = map_option abort (m_activeReply d)"
  by (simp_all add: timerTimeout_def cancel_def lastOutcome_eq split: option.splits)

lemma progressInternal_frame:
  "lastOutcome (progressInternal r t d) = lastOutcome d"
  "m_activeReply (progressInternal r t d) = m_activeReply d"
  "filter isCompleted (emitted (progressInternal r t d)) = filter isCompleted (emitted d)"
  by (simp_all add: progressInternal_def lastOutcome_eq Let_def)

lemma completeReply_fields:
  "rp_operation (completeReply rs rp) = rp_operation rp"
  "rp_request (completeReply rs rp) = rp_request rp"
  "rp_redirectionTarget (completeReply rs rp) = rs_redirectionTarget rs"
  "rp_body (completeReply rs rp) = rs_body rs"
  "rp_contentType (completeReply rs rp) = rs_contentType rs"
  "rp_error (completeReply rs rp) = (if rp_aborted rp then OperationCanceledError else rs_error rs)"
  by (simp_all add: completeReply_def)

section \<open>Parsing a rebuilt URL\<close>

lemma beforeFirst_prefix:
  "c \<notin> set a \<Longrightarrow> beforeFirst c (a @ b) = a @ beforeFirst c b"
  by (induction a) (auto simp: beforeFirst_def)

lemma afterFirst_prefix:
  "c \<notin> set a \<Longrightarrow> afterFirst c (a @ b) = afterFirst c b"
  by (induction a) (auto simp: afterFirst_def)

lemma beforeFirst_hit: "c \<notin> set a \<Longrightarrow> beforeFirst c (a @ c # b) = a"
  by (induction a) (auto simp: beforeFirst_def)

lemma afterFirst_hit: "c \<notin> set a \<Longrightarrow> afterFirst c (a @ c # b) = Some b"
  by (induction a) (auto simp: afterFirst_def)

lemma beforeFirst_Cons: "x \<noteq> c \<Longrightarrow> beforeFirst c (x # s) = x # beforeFirst c s"
  by (simp add: beforeFirst_def)

lemma afterFirst_None: "c \<notin> set s \<Longrightarrow> afterFirst c s = None"
  by (induction s) (auto simp: afterFirst_def)

lemma afterLast_None: "c \<notin> set s \<Longrightarrow> afterLast c s = None"
  by (simp add: afterLast_def)

lemma set_beforeFirst: "set (beforeFirst c s) \<subseteq> set s"
  by (auto simp: beforeFirst_def dest: set_takeWhileD)

lemma validScheme_chars:
  assumes "validScheme sch"
  shows "CHR '':'' \<notin> set sch" "CHR ''#'' \<notin> set sch" "CHR ''?'' \<notin> set sch"
proof -
  from assms obtain c cs where s: "sch = c # cs" "isAlpha c"
      "list_all (\<lambda>x. isAlpha x \<or> isDigit x \<or> x \<in> set ''+-.'') cs"
    by (auto simp: validScheme_def split: list.splits)
  have no: "\<And>x. isAlpha x \<or> isDigit x \<or> x \<in> set ''+-.'' \<Longrightarrow>
      x \<noteq> CHR '':'' \<and> x \<noteq> CHR ''#'' \<and> x \<noteq> CHR ''?''"
    by (auto simp: isAlpha_def isDigit_def upperCase_def lowerCase_def digits_def)
  from s no show "CHR '':'' \<notin> set sch" "CHR ''#'' \<notin> set sch" "CHR ''?'' \<notin> set sch"
    by (auto simp: list_all_iff)
qed

lemma plainHost_chars:
  assumes "plainHost h"
  shows "CHR ''/'' \<notin> set h" "CHR ''?'' \<notin> set h" "CHR ''#'' \<notin> set h"
    "CHR ''@'' \<notin> set h" "CHR '':'' \<notin> set h"
  using assms by (auto simp: plainHost_def list_all_iff)

lemma parse_absolute_path:
  assumes "take 1 s \<noteq> ''/''"
  shows "QUrl_fromString (CHR ''/'' # s) =
     emptyUrl\<lparr>u_path := beforeFirst (CHR ''?'') (beforeFirst (CHR ''#'') (CHR ''/'' # s)),
              u_query := afterFirst (CHR ''?'') (beforeFirst (CHR ''#'') (CHR ''/'' # s)),
              u_fragment := afterFirst (CHR ''#'') (CHR ''/'' # s)\<rparr>"
proof -
  let ?s1 = "beforeFirst (CHR ''#'') (CHR ''/'' # s)"
  let ?s2 = "beforeFirst (CHR ''?'') ?s1"
  obtain p where p: "?s2 = CHR ''/'' # p" "p = beforeFirst (CHR ''?'') (beforeFirst (CHR ''#'') s)"
    by (simp add: beforeFirst_def)
  have np: "take 1 p \<noteq> ''/''"
    using assms unfolding p(2) by (cases s) (auto simp: beforeFirst_def)
  have ns: "\<not> validScheme (beforeFirst (CHR '':'') ?s2)"
    unfolding p(1) by (simp add: beforeFirst_def validScheme_def isAlpha_def upperCase_def lowerCase_def)
  have nh: "take 2 ?s2 \<noteq> ''//''"
    unfolding p(1) using np by (cases p) auto
  show ?thesis
    using ns nh
    by (simp add: QUrl_fromString_def Let_def emptyUrl_def split: option.splits)
qed


lemma split_join:
  "beforeFirst c s @ (case afterFirst c s of None \<Rightarrow> [] | Some r \<Rightarrow> [c] @ r) = s"
proof -
  have "(case afterFirst c s of None \<Rightarrow> [] | Some r \<Rightarrow> [c] @ r) = dropWhile (\<lambda>x. x \<noteq> c) s"
  proof (cases "dropWhile (\<lambda>x. x \<noteq> c) s")
    case Nil
    show ?thesis unfolding afterFirst_def Nil by simp
  next
    case (Cons x r)
    have "x = c"
      using hd_dropWhile [of "\<lambda>x. x \<noteq> c" s] Cons by simp
    then show ?thesis unfolding afterFirst_def Cons by simp
  qed
  then show ?thesis
    by (simp add: beforeFirst_def)
qed

lemma toString_absolute_path:
  assumes "take 1 s \<noteq> ''/''"
  shows "isValid (QUrl_fromString (CHR ''/'' # s))"
    "host (QUrl_fromString (CHR ''/'' # s)) = []"
    "toString (QUrl_fromString (CHR ''/'' # s)) = CHR ''/'' # s"
proof -
  let ?t = "QUrl_fromString (CHR ''/'' # s)"
  let ?s1 = "beforeFirst (CHR ''#'') (CHR ''/'' # s)"
  let ?s2 = "beforeFirst (CHR ''?'') ?s1"
  note t = parse_absolute_path [OF assms]
  obtain p where p: "?s2 = CHR ''/'' # p" "p = beforeFirst (CHR ''?'') (beforeFirst (CHR ''#'') s)"
    by (simp add: beforeFirst_def)
  have np: "take 1 p \<noteq> ''/''"
    using assms unfolding p(2) by (cases s) (auto simp: beforeFirst_def)
  show v: "isValid ?t"
    unfolding t using np by (simp add: isValid_def isEmpty_def emptyUrl_def p(1))
  show "host ?t = []"
    unfolding t by (simp add: host_def emptyUrl_def)
  have "toString ?t = ?s2 @ (case afterFirst (CHR ''?'') ?s1 of None \<Rightarrow> [] | Some q \<Rightarrow> ''?'' @ q)
      @ (case afterFirst (CHR ''#'') (CHR ''/'' # s) of None \<Rightarrow> [] | Some f \<Rightarrow> ''#'' @ f)"
    using v unfolding toString_def unfolding t by (simp add: emptyUrl_def)
  also have "\<dots> = ?s1
      @ (case afterFirst (CHR ''#'') (CHR ''/'' # s) of None \<Rightarrow> [] | Some f \<Rightarrow> ''#'' @ f)"
    using split_join [of "CHR ''?''" ?s1] by simp
  also have "\<dots> = CHR ''/'' # s"
    using split_join [of "CHR ''#''" "CHR ''/'' # s"] by simp
  finally show "toString ?t = CHR ''/'' # s" .
qed

lemma parse_rebuilt:
  assumes "validScheme sch" "map toLower sch = sch" "plainHost h" "take 1 s \<noteq> ''/''"
  shows "QUrl_fromString (sch @ ''://'' @ h @ CHR ''/'' # s) =
     (QUrl_fromString (CHR ''/'' # s))\<lparr>u_scheme := sch, u_hasAuthority := True, u_host := h\<rparr>"
proof -
  let ?pre = "sch @ ''://'' @ h"
  let ?s1 = "beforeFirst (CHR ''#'') (CHR ''/'' # s)"
  let ?s2 = "beforeFirst (CHR ''?'') ?s1"
  note sc = validScheme_chars [OF assms(1)]
  note hc = plainHost_chars [OF assms(3)]
  have pre: "CHR ''#'' \<notin> set ?pre" "CHR ''?'' \<notin> set ?pre"
    using sc hc by auto
  have whole: "sch @ ''://'' @ h @ CHR ''/'' # s = ?pre @ CHR ''/'' # s"
    by simp
  have f: "afterFirst (CHR ''#'') (?pre @ CHR ''/'' # s) = afterFirst (CHR ''#'') (CHR ''/'' # s)"
    by (rule afterFirst_prefix [OF pre(1)])
  have s1: "beforeFirst (CHR ''#'') (?pre @ CHR ''/'' # s) = ?pre @ ?s1"
    by (rule beforeFirst_prefix [OF pre(1)])
  have q: "afterFirst (CHR ''?'') (?pre @ ?s1) = afterFirst (CHR ''?'') ?s1"
    by (rule afterFirst_prefix [OF pre(2)])
  have s2: "beforeFirst (CHR ''?'') (?pre @ ?s1) = ?pre @ ?s2"
    by (rule beforeFirst_prefix [OF pre(2)])
  obtain p where p: "?s2 = CHR ''/'' # p"
    by (simp add: beforeFirst_def)
  have c1: "beforeFirst (CHR '':'') (?pre @ ?s2) = sch"
    using beforeFirst_hit [OF sc(1), of "''//'' @ h @ ?s2"] by simp
  have c2: "afterFirst (CHR '':'') (?pre @ ?s2) = Some (''//'' @ h @ ?s2)"
    using afterFirst_hit [OF sc(1), of "''//'' @ h @ ?s2"] by simp
  have a1: "beforeFirst (CHR ''/'') (h @ ?s2) = h"
    unfolding p by (rule beforeFirst_hit [OF hc(1)])
  have a2: "dropWhile (\<lambda>x. x \<noteq> CHR ''/'') (h @ ?s2) = ?s2"
    unfolding p using hc(1) by (induction h) auto
  have au: "setAuthority h u = u\<lparr>u_hasAuthority := True, u_userInfo := [], u_host := h,
      u_port := None, u_parseError := False\<rparr>" for u
    using assms(3)
    by (simp add: setAuthority_def afterFirst_None [OF hc(4)] afterLast_None [OF hc(5)]
        parsePort_def plainHost_def)
  have "QUrl_fromString (?pre @ CHR ''/'' # s) =
     emptyUrl\<lparr>u_scheme := sch, u_query := afterFirst (CHR ''?'') ?s1,
              u_fragment := afterFirst (CHR ''#'') (CHR ''/'' # s),
              u_hasAuthority := True, u_userInfo := [], u_host := h, u_port := None,
              u_parseError := False, u_path := ?s2\<rparr>"
    unfolding QUrl_fromString_def Let_def f s1 q s2 c1 c2
    using assms(1,2) by (simp add: a1 a2 au)
  then show ?thesis
    unfolding whole parse_absolute_path [OF assms(4)]
    by (simp add: emptyUrl_def)
qed


section \<open>Runs\<close>

lemma run_single: "run [e] d = step e d"
  by (simp split: sum.splits)

lemma run_append:
  "run (es @ fs) d = (case run es d of Inl f \<Rightarrow> Inl f | Inr d' \<Rightarrow> run fs d')"
  by (induction es arbitrary: d) (auto split: sum.splits)

lemma manipulateData_chainInv:
  "dispatchable op \<Longrightarrow> chainInv (manipulateData url op data timeout prot user pw d)"
  by (simp add: chainInv_def manipulateData_run runRequest_fields newReply_def)

lemma step_inside_chain:
  assumes "chainInv d" "\<not> endsChain e"
  shows "\<exists>d'. step e d = Inr d' \<and> chainInv d'
     \<and> filter isCompleted (emitted d') = filter isCompleted (emitted d)
     \<and> lastOutcome d' = lastOutcome d"
proof -
  from assms(1) obtain rp where rp: "m_activeReply d = Some rp" "dispatchable (rp_operation rp)"
    by (auto simp: chainInv_def)
  show ?thesis
  proof (cases e)
    case (ProgressTick r t)
    with rp show ?thesis by (simp add: progressInternal_frame chainInv_def)
  next
    case (Finish rs)
    let ?r = "completeReply rs rp"
    from Finish assms(2) have v: "isValid (rp_redirectionTarget ?r)"
      by (simp add: completeReply_fields)
    have op: "dispatchable (rp_operation ?r)"
      using rp(2) by (simp add: completeReply_fields)
    note fr = finished_redirect [OF v rp(1) op]
    have st: "step e d = finished ?r d"
      using Finish rp(1) by simp
    have "chainInv (runRequest (rp_operation ?r)
            (setUrl (redirectUrl (rq_url (rp_request ?r)) (rp_redirectionTarget ?r))
               (rp_request ?r))
            (bodyOf (rp_operation ?r) (m_inputData d))
            (d\<lparr>m_timer := stop (m_timer d), m_activeReply := None\<rparr>))"
      using op by (simp add: chainInv_def runRequest_fields newReply_def)
    with fr finished_redirect_frame [OF v fr] show ?thesis
      unfolding st by (simp add: lastOutcome_eq)
  next
    case (Silence ms)
    with rp show ?thesis by (simp add: timerTimeout_frame chainInv_def abort_def)
  next
    case ExternalCancel
    with rp show ?thesis by (simp add: cancel_frame chainInv_def abort_def)
  qed
qed

lemma run_inside_chain:
  assumes "chainInv d" "\<forall>e \<in> set es. \<not> endsChain e"
  shows "\<exists>d'. run es d = Inr d' \<and> chainInv d'
     \<and> filter isCompleted (emitted d') = filter isCompleted (emitted d)
     \<and> lastOutcome d' = lastOutcome d"
  using assms
proof (induction es arbitrary: d)
  case Nil
  then show ?case by simp
next
  case (Cons e es)
  from Cons.prems obtain d1 where d1: "step e d = Inr d1" "chainInv d1"
      "filter isCompleted (emitted d1) = filter isCompleted (emitted d)"
      "lastOutcome d1 = lastOutcome d"
    using step_inside_chain [of d e] by auto
  from Cons.IH [OF d1(2)] Cons.prems(2) obtain d' where "run es d1 = Inr d'" "chainInv d'"
      "filter isCompleted (emitted d') = filter isCompleted (emitted d1)"
      "lastOutcome d' = lastOutcome d1"
    by auto
  with d1 show ?case by simp
qed

lemma activeUrlAfter_redirect:
  assumes "m_activeReply d = Some rp" "dispatchable (rp_operation rp)" "isValid target"
  shows "activeUrlAfter [Finish (redirectTo target)] d =
     Some (redirectUrl (rq_url (rp_request rp)) target)"
proof -
  let ?r = "completeReply (redirectTo target) rp"
  have t: "rp_redirectionTarget ?r = target"
    by (simp add: completeReply_fields redirectTo_def)
  have v: "isValid (rp_redirectionTarget ?r)" using assms(3) t by simp
  have op: "dispatchable (rp_operation ?r)" using assms(2) by (simp add: completeReply_fields)
  let ?D = "runRequest (rp_operation ?r)
            (setUrl (redirectUrl (rq_url (rp_request ?r)) (rp_redirectionTarget ?r))
               (rp_request ?r))
            (bodyOf (rp_operation ?r) (m_inputData d))
            (d\<lparr>m_timer := stop (m_timer d), m_activeReply := None\<rparr>)"
  have "run [Finish (redirectTo target)] d = step (Finish (redirectTo target)) d"
    by (rule run_single)
  also have "\<dots> = finished ?r d"
    using assms(1) by simp
  also have "\<dots> = Inr ?D"
    by (rule finished_redirect [OF v assms(1) op])
  finally have r: "run [Finish (redirectTo target)] d = Inr ?D" .
  have a: "map_option (\<lambda>rp. rq_url (rp_request rp)) (m_activeReply ?D)
      = Some (redirectUrl (rq_url (rp_request rp)) target)"
    by (simp add: runRequest_fields newReply_def setUrl_def completeReply_fields redirectTo_def)
  show ?thesis
    unfolding activeUrlAfter_def r using a by simp
qed

section \<open>The scenarios\<close>

lemma exampleGet_active: "m_activeReply exampleGet = Some exampleGetReply"
  by (simp add: scenario_eval)

lemma exampleGetReply_fields:
  "dispatchable (rp_operation exampleGetReply)"
  "rp_operation exampleGetReply = GetOperation"
  "rq_url (rp_request exampleGetReply) = QUrl_fromString ''http://example.com/old''"
  by (simp_all add: exampleGetReply_def newReply_def setUrl_def dispatchable_def)

lemma url_new: "isValid (QUrl_fromString ''/new'')" "host (QUrl_fromString ''/new'') = []"
  "toString (QUrl_fromString ''/new'') = ''/new''"
  by (simp_all add: url_eval)

lemma url_relative: "isValid (QUrl_fromString ''new'')" "host (QUrl_fromString ''new'') = []"
  "toString (QUrl_fromString ''new'') = ''new''"
  by (simp_all add: url_eval)

lemma url_old: "scheme (QUrl_fromString ''http://example.com/old'') = ''http''"
  "host (QUrl_fromString ''http://example.com/old'') = ''example.com''"
  by (simp_all add: url_eval)

lemma url_old_port:
  "scheme (QUrl_fromString ''http://user:pw@example.com:8080/old'') = ''http''"
  "host (QUrl_fromString ''http://user:pw@example.com:8080/old'') = ''example.com''"
  "u_port (QUrl_fromString ''http://user:pw@example.com:8080/old'') = Some 8080"
  "u_userInfo (QUrl_fromString ''http://user:pw@example.com:8080/old'') = ''user:pw''"
  by (simp_all add: url_eval)

lemma url_followed:
  "host (QUrl_fromString ''http://example.comnew'') = ''example.comnew''"
  "u_port (QUrl_fromString ''http://example.com/new'') = None"
  "u_userInfo (QUrl_fromString ''http://example.com/new'') = []"
  "toString (QUrl_fromString ''http://example.com/new'') = ''http://example.com/new''"
  by (simp_all add: url_eval)

lemma url_other:
  "isValid (QUrl_fromString ''https://www.example.org/new'')"
  "host (QUrl_fromString ''https://www.example.org/new'') = ''www.example.org''"
  by (simp_all add: url_eval)

section \<open>The inactivity timer\<close>

lemma manipulateData_timer:
  assumes "dispatchable op"
  shows "m_timer (manipulateData url op data timeout prot user pw d)
     = \<lparr>t_interval = timeout, t_active = True\<rparr>"
  by (simp add: manipulateData_run [OF assms] runRequest_fields start_def setInterval_def)

lemma negative_timeout_never_elapses:
  "dispatchable op \<Longrightarrow> timeout < 0 \<Longrightarrow>
     \<not> elapsed (m_timer (manipulateData url op data timeout prot user pw d)) ms"
  by (simp add: manipulateData_timer elapsed_def)

lemma progressInternal_no_restart:
  "t_interval (m_timer d) \<le> 0 \<Longrightarrow> m_timer (progressInternal r t d) = m_timer d"
  by (simp add: progressInternal_def)

text \<open>Claim C1, at a GET dispatched with timeout 0: the request is started with the
  timer running at interval 0, the timer elapses without any silence, and its timeout
  aborts the reply that was not aborted before.\<close>

theorem zero_timeout_timer_fires:
  "m_timer exampleGetNoTimeout = \<lparr>t_interval = 0, t_active = True\<rparr>
   \<and> elapsed (m_timer exampleGetNoTimeout) 0
   \<and> step (Silence 0) exampleGetNoTimeout = Inr (timerTimeout exampleGetNoTimeout)
   \<and> map_option rp_aborted (m_activeReply exampleGetNoTimeout) = Some False
   \<and> map_option rp_aborted (m_activeReply (timerTimeout exampleGetNoTimeout)) = Some True"
proof -
  have t: "m_timer exampleGetNoTimeout = \<lparr>t_interval = 0, t_active = True\<rparr>"
    unfolding exampleGetNoTimeout_def downloadFile_def
    by (simp add: manipulateData_timer dispatchable_def)
  have a: "map_option rp_aborted (m_activeReply exampleGetNoTimeout) = Some False"
    unfolding exampleGetNoTimeout_def downloadFile_def
    by (simp add: manipulateData_run dispatchable_def runRequest_fields newReply_def)
  show ?thesis
    using a by (auto simp: t elapsed_def timerTimeout_frame abort_def)
qed

section \<open>Redirections\<close>

text \<open>A redirection target written as an absolute path is followed on the scheme and
  the host of the redirected request, when these are a scheme and a plain host name: the
  follow-up URL is the target with that scheme and host, without port and user info.\<close>

lemma followUpRequest_redirect:
  assumes "isValid (rp_redirectionTarget reply)" "m_activeReply d = Some a"
    "dispatchable (rp_operation reply)"
  shows "followUpRequest reply d =
     Some (setUrl (redirectUrl (rq_url (rp_request reply)) (rp_redirectionTarget reply))
             (rp_request reply))"
  using assms
  by (auto simp: followUpRequest_def finished_def dispatchable_def Let_def
      runGetRequest_def runPostRequest_def runPutRequest_def runDeleteRequest_def
      runRequest_def newReply_def redirectUrl_def)

lemma redirect_to_absolute_path:
  assumes "rp_redirectionTarget reply = QUrl_fromString (CHR ''/'' # s)" "take 1 s \<noteq> ''/''"
    "validScheme (scheme (rq_url (rp_request reply)))"
    "map toLower (scheme (rq_url (rp_request reply))) = scheme (rq_url (rp_request reply))"
    "plainHost (host (rq_url (rp_request reply)))"
    "m_activeReply d = Some a" "dispatchable (rp_operation reply)"
  shows "\<exists>rq. followUpRequest reply d = Some rq
     \<and> rq_url rq = (rp_redirectionTarget reply)
          \<lparr>u_scheme := scheme (rq_url (rp_request reply)), u_hasAuthority := True,
           u_host := host (rq_url (rp_request reply))\<rparr>
     \<and> scheme (rq_url rq) = scheme (rq_url (rp_request reply))
     \<and> host (rq_url rq) = host (rq_url (rp_request reply))
     \<and> u_path (rq_url rq) = u_path (rp_redirectionTarget reply)
     \<and> u_port (rq_url rq) = None \<and> u_userInfo (rq_url rq) = []"
proof -
  note t = toString_absolute_path [OF assms(2)]
  have v: "isValid (rp_redirectionTarget reply)"
    unfolding assms(1) by (rule t(1))
  have u: "redirectUrl (rq_url (rp_request reply)) (rp_redirectionTarget reply)
      = (rp_redirectionTarget reply)
          \<lparr>u_scheme := scheme (rq_url (rp_request reply)), u_hasAuthority := True,
           u_host := host (rq_url (rp_request reply))\<rparr>"
    unfolding assms(1) redirectUrl_def
    using parse_rebuilt [OF assms(3,4,5,2)] by (simp add: t)
  have p: "u_port (QUrl_fromString (CHR ''/'' # s)) = None"
    "u_userInfo (QUrl_fromString (CHR ''/'' # s)) = []"
    unfolding parse_absolute_path [OF assms(2)] by (simp_all add: emptyUrl_def)
  show ?thesis
    unfolding followUpRequest_redirect [OF v assms(6,7)] u
    using p by (simp add: setUrl_def scheme_def host_def assms(1))
qed

text \<open>Claim C2, at the example of the specification and at a redirection target that
  is a relative path: the redirect of \<open>http://example.com/old\<close> to \<open>/new\<close> is followed
  to \<open>http://example.com/new\<close>; the redirect to \<open>new\<close>, a valid URL with an empty
  host, is followed to \<open>http://example.comnew\<close>, whose host is not \<open>example.com\<close>.\<close>

theorem relative_redirect_changes_host:
  "activeUrlAfter [Finish (redirectTo (QUrl_fromString ''/new''))] exampleGet
     = Some (QUrl_fromString ''http://example.com/new'')
   \<and> isValid (QUrl_fromString ''new'') \<and> host (QUrl_fromString ''new'') = []
   \<and> activeUrlAfter [Finish (redirectTo (QUrl_fromString ''new''))] exampleGet
     = Some (QUrl_fromString ''http://example.comnew'')
   \<and> host (QUrl_fromString ''http://example.comnew'') = ''example.comnew''
   \<and> host (QUrl_fromString ''http://example.com/old'') = ''example.com''"
  using activeUrlAfter_redirect [OF exampleGet_active exampleGetReply_fields(1) url_new(1)]
    activeUrlAfter_redirect [OF exampleGet_active exampleGetReply_fields(1) url_relative(1)]
  by (simp add: exampleGetReply_fields redirectUrl_def url_new url_relative url_old url_followed)

text \<open>Claim C3, amended: the follow-up of a redirection is started with the operation
  of the redirected reply and with the stored credentials on the new reply; the stored
  body is sent again for POST and PUT, while the follow-up of a GET or a DELETE carries no
  body, as at the first dispatch; the stored body and credentials stay as they are.\<close>

theorem redirect_keeps_method_body_credentials:
  assumes "isValid (rp_redirectionTarget reply)" "m_activeReply d = Some a"
    "dispatchable (rp_operation reply)"
  shows "\<exists>d' rp. finished reply d = Inr d' \<and> m_activeReply d' = Some rp
     \<and> rp_operation rp = rp_operation reply
     \<and> rp_outgoingData rp =
         (if rp_operation reply = PostOperation \<or> rp_operation reply = PutOperation
          then Some (m_inputData d) else None)
     \<and> rp_protected rp = m_targetProtected d
     \<and> rp_username rp = m_targetUsername d
     \<and> rp_password rp = m_targetPassword d
     \<and> m_inputData d' = m_inputData d
     \<and> m_targetProtected d' = m_targetProtected d
     \<and> m_targetUsername d' = m_targetUsername d
     \<and> m_targetPassword d' = m_targetPassword d"
  by (simp add: finished_redirect [OF assms] runRequest_fields newReply_def bodyOf_def)

lemma examplePost_fields:
  "m_activeReply examplePost = Some examplePostReply"
  "m_inputData examplePost = ''a=1''"
  "m_targetProtected examplePost" "m_targetUsername examplePost = ''user''"
  "m_targetPassword examplePost = ''secret''"
  by (simp_all add: scenario_eval examplePostReply_def)

lemma examplePostReply_fields:
  "rp_operation examplePostReply = PostOperation"
  by (simp add: examplePostReply_def newReply_def)

theorem redirect_keeps_method_body_credentials_witness:
  "isValid (rp_redirectionTarget (completeReply (redirectTo (QUrl_fromString ''/new'')) examplePostReply))
   \<and> m_activeReply examplePost = Some examplePostReply
   \<and> dispatchable (rp_operation (completeReply (redirectTo (QUrl_fromString ''/new'')) examplePostReply))
   \<and> (\<exists>d' rp. finished (completeReply (redirectTo (QUrl_fromString ''/new'')) examplePostReply)
                 examplePost = Inr d'
         \<and> m_activeReply d' = Some rp
         \<and> rp_operation rp = PostOperation
         \<and> rp_outgoingData rp = Some ''a=1''
         \<and> rp_protected rp \<and> rp_username rp = ''user'' \<and> rp_password rp = ''secret'')"
proof -
  let ?r = "completeReply (redirectTo (QUrl_fromString ''/new'')) examplePostReply"
  have v: "isValid (rp_redirectionTarget ?r)"
    by (simp add: completeReply_fields redirectTo_def url_new)
  have op: "dispatchable (rp_operation ?r)"
    by (simp add: completeReply_fields examplePostReply_fields dispatchable_def)
  from redirect_keeps_method_body_credentials [OF v examplePost_fields(1) op]
  show ?thesis
    using v op
    by (auto simp: examplePost_fields completeReply_fields examplePostReply_fields)
qed


text \<open>The stored body is not carried onto the follow-up of a DELETE: after a DELETE
  dispatched with the body \<open>xyz\<close> is redirected, the follow-up is a DELETE without a
  body, while \<open>xyz\<close> is still stored.\<close>

lemma exampleDelete_fields:
  "m_activeReply exampleDelete = Some exampleDeleteReply"
  "m_inputData exampleDelete = ''xyz''"
  by (simp_all add: scenario_eval exampleDelete_def exampleDeleteReply_def)

lemma followUpReply_redirect:
  assumes "isValid (rp_redirectionTarget reply)" "m_activeReply d = Some a"
    "dispatchable (rp_operation reply)"
  shows "followUpReply reply d =
     Some ((newReply (rp_operation reply)
              (setUrl (redirectUrl (rq_url (rp_request reply)) (rp_redirectionTarget reply))
                 (rp_request reply))
              (bodyOf (rp_operation reply) (m_inputData d)))
            \<lparr>rp_protected := m_targetProtected d, rp_username := m_targetUsername d,
             rp_password := m_targetPassword d\<rparr>)"
  unfolding followUpReply_def finished_redirect [OF assms]
  by (simp add: runRequest_fields)

theorem delete_redirect_sends_no_body:
  "m_activeReply exampleDelete = Some exampleDeleteReply
   \<and> m_inputData exampleDelete = ''xyz''
   \<and> isValid (rp_redirectionTarget
        (completeReply (redirectTo (QUrl_fromString ''/new'')) exampleDeleteReply))
   \<and> map_option rp_operation
        (followUpReply (completeReply (redirectTo (QUrl_fromString ''/new'')) exampleDeleteReply)
           exampleDelete) = Some DeleteOperation
   \<and> map_option rp_outgoingData
        (followUpReply (completeReply (redirectTo (QUrl_fromString ''/new'')) exampleDeleteReply)
           exampleDelete) = Some None
   \<and> map_option rp_outgoingData
        (followUpReply (completeReply (redirectTo (QUrl_fromString ''/new'')) exampleDeleteReply)
           exampleDelete) \<noteq> Some (Some (m_inputData exampleDelete))"
proof -
  let ?r = "completeReply (redirectTo (QUrl_fromString ''/new'')) exampleDeleteReply"
  have v: "isValid (rp_redirectionTarget ?r)"
    by (simp add: completeReply_fields redirectTo_def url_new)
  have o: "rp_operation ?r = DeleteOperation"
    by (simp add: completeReply_fields exampleDeleteReply_def newReply_def)
  have op: "dispatchable (rp_operation ?r)"
    unfolding o by (simp add: dispatchable_def)
  show ?thesis
    using v followUpReply_redirect [OF v exampleDelete_fields(1) op]
    by (simp add: exampleDelete_fields o bodyOf_def newReply_def)
qed

section \<open>Custom headers\<close>

text \<open>Claim C4: \<^verbatim>\<open>appendRawHeader\<close> with an empty value leaves the downloader as it
  is, so a value registered before under the same name stays; after \<open>X-Auth\<close> is set
  to \<open>token1\<close> and then to the empty value, \<open>token1\<close> is still registered.\<close>

theorem appendRawHeader_empty_value_noop:
  "appendRawHeader name [] d = d
   \<and> hashValue name (m_customHeaders (appendRawHeader name [] (appendRawHeader name v d)))
       = hashValue name (m_customHeaders (appendRawHeader name v d))
   \<and> hashValue ''X-Auth''
        (m_customHeaders (appendRawHeader ''X-Auth'' [] (appendRawHeader ''X-Auth'' ''token1'' d)))
       = ''token1''"
  by (simp add: appendRawHeader_def hashValue_hashInsert)

lemma sameHeaderName_trans:
  "sameHeaderName a b \<Longrightarrow> sameHeaderName x a = sameHeaderName x b"
  by (auto simp: sameHeaderName_def)

lemma sameHeaderName_sym: "sameHeaderName a b = sameHeaderName b a"
  by (auto simp: sameHeaderName_def)

lemma rawHeader_setRawHeader_same:
  assumes "sameHeaderName k name"
  shows "rawHeader name (setRawHeader k v rq) = v"
proof -
  have "filter (\<lambda>(x, y). sameHeaderName x name)
          (filter (\<lambda>(x, y). \<not> sameHeaderName x k) (rq_rawHeaders rq)) = []"
    using assms by (auto simp: filter_empty_conv sameHeaderName_def)
  then show ?thesis
    using assms by (simp add: rawHeader_def setRawHeader_def)
qed

lemma rawHeader_setRawHeader_other:
  assumes "\<not> sameHeaderName k name"
  shows "rawHeader name (setRawHeader k v rq) = rawHeader name rq"
proof -
  have "filter (\<lambda>(x, y). sameHeaderName x name)
          (filter (\<lambda>(x, y). \<not> sameHeaderName x k) (rq_rawHeaders rq))
        = filter (\<lambda>(x, y). sameHeaderName x name) (rq_rawHeaders rq)"
    using assms by (auto simp: sameHeaderName_def intro!: filter_cong)
  then show ?thesis
    using assms by (simp add: rawHeader_def setRawHeader_def)
qed

lemma rawHeader_mergeHeaders:
  "rawHeader name (mergeHeaders kvs rq) =
     (case filter (\<lambda>(k, v). sameHeaderName k name) (rev kvs) of
        [] \<Rightarrow> rawHeader name rq
      | (k, v) # _ \<Rightarrow> v)"
proof (induction kvs arbitrary: rq)
  case Nil
  show ?case by simp
next
  case (Cons kv kvs)
  obtain k v where kv: "kv = (k, v)" by (cases kv)
  show ?case
  proof (cases "filter (\<lambda>(k, v). sameHeaderName k name) (rev kvs)")
    case Nil
    then show ?thesis
      using Cons.IH [of "setRawHeader k v rq"]
      by (simp add: kv rawHeader_setRawHeader_same rawHeader_setRawHeader_other)
  next
    case (Cons a as)
    then show ?thesis
      using Cons.IH [of "setRawHeader k v rq"] by (simp add: kv)
  qed
qed

lemma rawHeader_emptyRequest: "rawHeader name emptyRequest = []"
  by (simp add: rawHeader_def emptyRequest_def)

lemma rawHeader_merged:
  "rawHeader name (mergeHeaders kvs emptyRequest) = customValue name kvs"
  by (simp add: rawHeader_mergeHeaders rawHeader_emptyRequest customValue_def
      split: list.splits)

lemma customValue_cong:
  "sameHeaderName a b \<Longrightarrow> customValue a kvs = customValue b kvs"
  by (simp add: customValue_def sameHeaderName_trans)

lemma rawHeader_defaultContentType:
  "rawHeader name (defaultContentType PostOperation (mergeHeaders kvs emptyRequest)) =
     (if sameHeaderName name HTTP_HEADERS_CONTENT_TYPE \<and> customValue name kvs = []
      then ''application/x-www-form-urlencoded'' else customValue name kvs)"
proof (cases "sameHeaderName name HTTP_HEADERS_CONTENT_TYPE")
  case True
  then have s: "sameHeaderName HTTP_HEADERS_CONTENT_TYPE name"
    by (simp add: sameHeaderName_sym)
  show ?thesis
    using True customValue_cong [OF True, of kvs]
    by (simp add: defaultContentType_def rawHeader_merged rawHeader_setRawHeader_same [OF s])
next
  case False
  then have s: "\<not> sameHeaderName HTTP_HEADERS_CONTENT_TYPE name"
    by (simp add: sameHeaderName_sym)
  show ?thesis
    using False
    by (simp add: defaultContentType_def rawHeader_merged rawHeader_setRawHeader_other [OF s])
qed

lemma post_content_type_examples:
  "map_option (\<lambda>rp. rq_rawHeaders (rp_request rp))
     (m_activeReply (uploadFile ''http://example.com/form'' ''a=1'' 5000 False [] []
        (Downloader_new 5000)))
     = Some [(''Content-Type'', ''application/x-www-form-urlencoded'')]"
  "map_option (\<lambda>rp. rq_rawHeaders (rp_request rp))
     (m_activeReply (uploadFile ''http://example.com/form'' ''{}'' 5000 False [] []
        (appendRawHeader ''content-type'' ''application/json'' (Downloader_new 5000))))
     = Some [(''content-type'', ''application/json'')]"
  by (simp_all add: scenario_eval appendRawHeader_def toLower_def upperCase_def lowerCase_def)

text \<open>Claim C5: the request of a POST dispatch carries, under every header name, the
  value the custom header mapping gives that name, except that an absent or empty
  content-type is \<open>application/x-www-form-urlencoded\<close>; a content-type set through the
  custom header mapping is left as it is, and so are then all headers of the merge. A
  content-type registered with \<^verbatim>\<open>appendRawHeader\<close> in lower case is the only header of
  the request.\<close>

theorem post_defaults_content_type:
  "\<exists>rp. m_activeReply (manipulateData url PostOperation data timeout prot user pw d) = Some rp
     \<and> rp_operation rp = PostOperation
     \<and> rawHeader name (rp_request rp) =
         (if sameHeaderName name HTTP_HEADERS_CONTENT_TYPE
             \<and> customValue name (m_customHeaders d) = []
          then ''application/x-www-form-urlencoded''
          else customValue name (m_customHeaders d))
     \<and> (if customValue HTTP_HEADERS_CONTENT_TYPE (m_customHeaders d) = []
        then rawHeader HTTP_HEADERS_CONTENT_TYPE (rp_request rp)
               = ''application/x-www-form-urlencoded''
        else rawHeader HTTP_HEADERS_CONTENT_TYPE (rp_request rp)
               = customValue HTTP_HEADERS_CONTENT_TYPE (m_customHeaders d)
           \<and> rq_rawHeaders (rp_request rp)
               = rq_rawHeaders (mergeHeaders (m_customHeaders d) emptyRequest))
     \<and> map_option (\<lambda>rp. rq_rawHeaders (rp_request rp))
          (m_activeReply (uploadFile ''http://example.com/form'' ''{}'' 5000 False [] []
             (appendRawHeader ''content-type'' ''application/json'' (Downloader_new 5000))))
         = Some [(''content-type'', ''application/json'')]"
proof -
  let ?m = "mergeHeaders (m_customHeaders d) emptyRequest"
  let ?rq = "setUrl (QUrl_fromString url) (defaultContentType PostOperation ?m)"
  have h: "rawHeader n ?rq =
         (if sameHeaderName n HTTP_HEADERS_CONTENT_TYPE \<and> customValue n (m_customHeaders d) = []
          then ''application/x-www-form-urlencoded''
          else customValue n (m_customHeaders d))" for n
    by (simp only: rawHeader_setUrl rawHeader_defaultContentType)
  have same: "sameHeaderName HTTP_HEADERS_CONTENT_TYPE HTTP_HEADERS_CONTENT_TYPE"
    by (simp add: sameHeaderName_def)
  have keep: "customValue HTTP_HEADERS_CONTENT_TYPE (m_customHeaders d) \<noteq> [] \<Longrightarrow>
      rq_rawHeaders ?rq = rq_rawHeaders ?m"
    by (simp add: rq_rawHeaders_setUrl defaultContentType_def rawHeader_merged)
  have act: "m_activeReply (manipulateData url PostOperation data timeout prot user pw d)
      = Some ((newReply PostOperation ?rq (bodyOf PostOperation data))
               \<lparr>rp_protected := prot, rp_username := user, rp_password := pw\<rparr>)"
    by (simp add: manipulateData_run dispatchable_def runRequest_fields)
  show ?thesis
    unfolding act
    using h [of name] h [of HTTP_HEADERS_CONTENT_TYPE] same keep post_content_type_examples(2)
    by (simp add: newReply_def)
qed

section \<open>Completion\<close>

text \<open>Claim C6: after a dispatch, any run of progress ticks, redirections, timer
  timeouts and cancellations emits no \<open>completed\<close> signal and keeps a reply active;
  the end of the exchange without a redirection then stores body, content-type and
  error code, which the three accessors return, and emits \<open>completed\<close> once, with
  the stored error code and body, as the last signal.\<close>

theorem one_completed_per_chain:
  assumes "dispatchable op" "\<forall>e \<in> set es. \<not> endsChain e"
    "\<not> isValid (rs_redirectionTarget rs)"
  shows "\<exists>d1 rp d'.
       run es (manipulateData url op data timeout prot user pw d) = Inr d1
     \<and> m_activeReply d1 = Some rp
     \<and> filter isCompleted (emitted d1) = filter isCompleted (emitted d)
     \<and> run (es @ [Finish rs]) (manipulateData url op data timeout prot user pw d) = Inr d'
     \<and> emitted d' = emitted d1 @ [Completed (lastOutputError d') (lastOutputData d')]
     \<and> lastOutputData d' = rs_body rs
     \<and> lastContentType d' = rs_contentType rs
     \<and> lastOutputError d' = (if rp_aborted rp then OperationCanceledError else rs_error rs)
     \<and> m_activeReply d' = None"
proof -
  let ?d0 = "manipulateData url op data timeout prot user pw d"
  from run_inside_chain [OF manipulateData_chainInv [OF assms(1)] assms(2)]
  obtain d1 where d1: "run es ?d0 = Inr d1" "chainInv d1"
      "filter isCompleted (emitted d1) = filter isCompleted (emitted ?d0)"
    by blast
  from d1(2) obtain rp where rp: "m_activeReply d1 = Some rp"
    by (auto simp: chainInv_def)
  have nv: "\<not> isValid (rp_redirectionTarget (completeReply rs rp))"
    using assms(3) by (simp add: completeReply_fields)
  note fin = finished_final [OF nv rp]
  show ?thesis
    using d1 rp fin
    by (simp add: run_append manipulateData_frame completeReply_fields lastOutputData_def
        lastOutputError_def lastContentType_def)
qed

theorem one_completed_per_chain_witness:
  "dispatchable GetOperation
   \<and> list_all (\<lambda>e. \<not> endsChain e)
       [ProgressTick 10 100, Finish (redirectTo (QUrl_fromString ''/new'')), ProgressTick 5 5]
   \<and> \<not> isValid (rs_redirectionTarget (plainAnswer ''hello''))
   \<and> (\<exists>d'. run ([ProgressTick 10 100, Finish (redirectTo (QUrl_fromString ''/new'')),
                  ProgressTick 5 5] @ [Finish (plainAnswer ''hello'')])
               (manipulateData ''http://example.com/old'' GetOperation [] 5000 False [] []
                  (Downloader_new 5000)) = Inr d'
         \<and> filter isCompleted (emitted d') = [Completed NoError ''hello'']
         \<and> lastOutputData d' = ''hello''
         \<and> lastContentType d' = Some ''text/plain''
         \<and> m_activeReply d' = None)"
proof -
  let ?es = "[ProgressTick 10 100, Finish (redirectTo (QUrl_fromString ''/new'')),
      ProgressTick 5 5]"
  have g: "dispatchable GetOperation" by (simp add: dispatchable_def)
  have es: "\<forall>e \<in> set ?es. \<not> endsChain e"
    by (simp add: redirectTo_def url_new)
  have nv: "\<not> isValid (rs_redirectionTarget (plainAnswer ''hello''))"
    by (simp add: plainAnswer_def isValid_def isEmpty_def emptyUrl_def)
  from one_completed_per_chain [OF g es nv, of "''http://example.com/old''" "[]" 5000 False
      "[]" "[]" "Downloader_new 5000"]
  obtain d1 rp d' where r:
    "filter isCompleted (emitted d1) = filter isCompleted (emitted (Downloader_new 5000))"
    "run (?es @ [Finish (plainAnswer ''hello'')])
       (manipulateData ''http://example.com/old'' GetOperation [] 5000 False [] []
          (Downloader_new 5000)) = Inr d'"
    "emitted d' = emitted d1 @ [Completed (lastOutputError d') (lastOutputData d')]"
    "lastOutputData d' = rs_body (plainAnswer ''hello'')"
    "lastContentType d' = rs_contentType (plainAnswer ''hello'')"
    "lastOutputError d' =
       (if rp_aborted rp then OperationCanceledError else rs_error (plainAnswer ''hello''))"
    "m_activeReply d' = None"
    "run ?es (manipulateData ''http://example.com/old'' GetOperation [] 5000 False [] []
          (Downloader_new 5000)) = Inr d1"
    "m_activeReply d1 = Some rp"
    by blast
  have "(case run ?es (manipulateData ''http://example.com/old'' GetOperation [] 5000 False
            [] [] (Downloader_new 5000)) of
          Inl f \<Rightarrow> None | Inr d \<Rightarrow> map_option rp_aborted (m_activeReply d)) = Some False"
    by (simp add: scenario_eval redirectTo_def completeReply_def finished_def progressInternal_def
        stop_def url_eval)
  with r(8,9) have na: "\<not> rp_aborted rp"
    by simp
  show ?thesis
    using g es nv r na
    by (auto simp: plainAnswer_def Downloader_new_def)
qed


section \<open>Timeout and cancellation\<close>

text \<open>Claim C7: the timeout of the timer is a call of \<^verbatim>\<open>cancel\<close>: it aborts the active
  reply as an outside call of \<^verbatim>\<open>cancel\<close> does, emits no signal and stores nothing of
  its own. Whatever reply then finishes, \<^verbatim>\<open>finished\<close> gives the same result after the
  one as after the other; the aborted exchange ends through the branch of \<^verbatim>\<open>finished\<close>
  that stores the error of the cancelled operation and emits \<open>completed\<close> with it.\<close>

theorem timeout_is_cancel:
  assumes "m_activeReply d = Some rp" "\<not> isValid (rs_redirectionTarget rs)"
  shows "m_activeReply (timerTimeout d) = Some (abort rp)
     \<and> m_activeReply (cancel d) = Some (abort rp)
     \<and> emitted (timerTimeout d) = emitted d
     \<and> lastOutcome (timerTimeout d) = lastOutcome d
     \<and> finished reply (timerTimeout d) = finished reply (cancel d)
     \<and> step (Finish rs) (timerTimeout d) = step (Finish rs) (cancel d)
     \<and> (\<exists>d'. step (Finish rs) (timerTimeout d) = Inr d'
           \<and> emitted d' = emitted d @ [Completed OperationCanceledError (rs_body rs)]
           \<and> lastOutputError d' = OperationCanceledError)"
proof -
  have eq: "finished r (timerTimeout d) = finished r (cancel d)" for r
    unfolding timerTimeout_def cancel_stop_commute by (rule finished_timer_irrelevant)
  have act: "m_activeReply (timerTimeout d) = Some (abort rp)"
    using assms(1) by (simp add: timerTimeout_frame)
  have nv: "\<not> isValid (rp_redirectionTarget (completeReply rs (abort rp)))"
    using assms(2) by (simp add: completeReply_fields)
  note fin = finished_final [OF nv act]
  have rest: "m_activeReply (cancel d) = Some (abort rp)
     \<and> emitted (timerTimeout d) = emitted d
     \<and> lastOutcome (timerTimeout d) = lastOutcome d
     \<and> step (Finish rs) (timerTimeout d) = step (Finish rs) (cancel d)
     \<and> (\<exists>d'. step (Finish rs) (timerTimeout d) = Inr d'
           \<and> emitted d' = emitted d @ [Completed OperationCanceledError (rs_body rs)]
           \<and> lastOutputError d' = OperationCanceledError)"
    using assms(1) act eq fin
    by (simp add: timerTimeout_frame cancel_frame completeReply_def abort_def
        lastOutputError_def)
  show ?thesis
    using act eq rest by blast
qed

lemma plainAnswer_not_redirect: "\<not> isValid (rs_redirectionTarget (plainAnswer body))"
  by (simp add: plainAnswer_def isValid_def isEmpty_def emptyUrl_def)

theorem timeout_is_cancel_witness:
  "m_activeReply exampleGet = Some exampleGetReply
   \<and> \<not> isValid (rs_redirectionTarget (plainAnswer []))
   \<and> step (Finish (plainAnswer [])) (timerTimeout exampleGet)
       = step (Finish (plainAnswer [])) (cancel exampleGet)
   \<and> (\<exists>d'. step (Finish (plainAnswer [])) (timerTimeout exampleGet) = Inr d'
         \<and> emitted d' = [Completed OperationCanceledError []]
         \<and> lastOutputError d' = OperationCanceledError)"
proof -
  have e: "emitted exampleGet = []"
    by (simp add: exampleGet_def downloadFile_def manipulateData_frame Downloader_new_def)
  from timeout_is_cancel [OF exampleGet_active plainAnswer_not_redirect [of "[]"],
      where reply = exampleGetReply]
  show ?thesis
    using exampleGet_active plainAnswer_not_redirect [of "[]"]
    by (auto simp: e plainAnswer_def)
qed

section \<open>The last outcome\<close>

text \<open>Claim C8: the last outcome (body, content-type, error code) is the same after a
  dispatch, after a progress tick, after \<^verbatim>\<open>cancel\<close> and after \<^verbatim>\<open>finished\<close> on a reply
  with a valid redirection target, and so after a dispatch followed by any run of events
  none of which ends the chain.\<close>

theorem last_outcome_retained:
  "lastOutcome (manipulateData url op data timeout prot user pw d) = lastOutcome d
   \<and> lastOutcome (progressInternal r t d) = lastOutcome d
   \<and> lastOutcome (cancel d) = lastOutcome d
   \<and> (isValid (rp_redirectionTarget reply) \<longrightarrow>
        (case finished reply d of Inl f \<Rightarrow> True | Inr d' \<Rightarrow> lastOutcome d' = lastOutcome d))
   \<and> (dispatchable op \<longrightarrow> (\<forall>e \<in> set es. \<not> endsChain e) \<longrightarrow>
        (\<exists>d'. run es (manipulateData url op data timeout prot user pw d) = Inr d'
            \<and> lastOutcome d' = lastOutcome d))"
proof -
  have a: "lastOutcome (manipulateData url op data timeout prot user pw d) = lastOutcome d"
    by (simp add: lastOutcome_eq manipulateData_frame)
  have b: "isValid (rp_redirectionTarget reply) \<longrightarrow>
        (case finished reply d of Inl f \<Rightarrow> True | Inr d' \<Rightarrow> lastOutcome d' = lastOutcome d)"
    by (auto simp: lastOutcome_eq split: sum.splits dest: finished_redirect_frame)
  have c: "dispatchable op \<longrightarrow> (\<forall>e \<in> set es. \<not> endsChain e) \<longrightarrow>
        (\<exists>d'. run es (manipulateData url op data timeout prot user pw d) = Inr d'
            \<and> lastOutcome d' = lastOutcome d)"
    using run_inside_chain [OF manipulateData_chainInv, of op es url data timeout prot user pw d] a
    by auto
  show ?thesis
    using a b c by (simp add: progressInternal_frame cancel_frame)
qed

theorem last_outcome_retained_witness:
  "isValid (rp_redirectionTarget (completeReply (redirectTo (QUrl_fromString ''/new''))
              exampleGetReply))
   \<and> (\<exists>d'. finished (completeReply (redirectTo (QUrl_fromString ''/new'')) exampleGetReply)
              exampleGet = Inr d'
         \<and> lastOutcome d' = ([], None, NoError))
   \<and> dispatchable PostOperation
   \<and> list_all (\<lambda>e. \<not> endsChain e)
       [ProgressTick 1 2, Finish (redirectTo (QUrl_fromString ''/new'')), Silence 5000]
   \<and> (\<exists>d'. run [ProgressTick 1 2, Finish (redirectTo (QUrl_fromString ''/new'')), Silence 5000]
              (manipulateData ''http://example.com/form'' PostOperation ''a=1'' 5000 False [] []
                 (Downloader_new 5000)) = Inr d'
         \<and> lastOutcome d' = ([], None, NoError))"
proof -
  let ?r = "completeReply (redirectTo (QUrl_fromString ''/new'')) exampleGetReply"
  let ?es = "[ProgressTick 1 2, Finish (redirectTo (QUrl_fromString ''/new'')), Silence 5000]"
  have v: "isValid (rp_redirectionTarget ?r)"
    by (simp add: completeReply_fields redirectTo_def url_new)
  have op: "dispatchable (rp_operation ?r)"
    by (simp add: completeReply_fields exampleGetReply_fields dispatchable_def)
  have p: "dispatchable PostOperation" by (simp add: dispatchable_def)
  have es: "\<forall>e \<in> set ?es. \<not> endsChain e"
    by (simp add: redirectTo_def url_new)
  have n: "lastOutcome (Downloader_new 5000) = ([], None, NoError)"
    by (simp add: lastOutcome_def lastOutputData_def lastContentType_def lastOutputError_def
        Downloader_new_def)
  have g: "lastOutcome exampleGet = ([], None, NoError)"
    by (simp add: exampleGet_def downloadFile_def lastOutcome_def lastOutputData_def
        lastContentType_def lastOutputError_def manipulateData_frame Downloader_new_def)
  have f: "\<exists>d'. finished ?r exampleGet = Inr d'"
    using finished_redirect [OF v exampleGet_active op] by simp
  from last_outcome_retained [where url = "''http://example.com/form''" and op = PostOperation
      and data = "''a=1''" and timeout = 5000 and prot = False and user = "[]" and pw = "[]"
      and d = "Downloader_new 5000" and reply = ?r and es = ?es]
    last_outcome_retained [where op = PostOperation and d = exampleGet and reply = ?r
      and es = "[]"]
  show ?thesis
    using v p es n g f by (auto split: sum.splits)
qed

section \<open>Redirections to another host, and the port\<close>

text \<open>Claim C9: when the reply carries a valid redirection target with a non-empty
  host, the URL of the follow-up request is that target as it is; the headers of the
  request are those of the redirected request.\<close>

theorem redirect_with_host_verbatim:
  assumes "isValid (rp_redirectionTarget reply)" "host (rp_redirectionTarget reply) \<noteq> []"
    "m_activeReply d = Some a" "dispatchable (rp_operation reply)"
  shows "\<exists>rq. followUpRequest reply d = Some rq
     \<and> rq_url rq = rp_redirectionTarget reply
     \<and> rq_rawHeaders rq = rq_rawHeaders (rp_request reply)"
  using assms(2)
  by (simp add: followUpRequest_def finished_redirect [OF assms(1,3,4)] runRequest_fields
      newReply_def setUrl_def redirectUrl_def)

theorem redirect_with_host_verbatim_witness:
  "isValid (rp_redirectionTarget
      (completeReply (redirectTo (QUrl_fromString ''https://www.example.org/new'')) exampleGetReply))
   \<and> host (rp_redirectionTarget
      (completeReply (redirectTo (QUrl_fromString ''https://www.example.org/new'')) exampleGetReply))
       = ''www.example.org''
   \<and> (\<exists>rq. followUpRequest
         (completeReply (redirectTo (QUrl_fromString ''https://www.example.org/new'')) exampleGetReply)
         exampleGet = Some rq
        \<and> rq_url rq = QUrl_fromString ''https://www.example.org/new'')"
proof -
  let ?r = "completeReply (redirectTo (QUrl_fromString ''https://www.example.org/new''))
      exampleGetReply"
  have t: "rp_redirectionTarget ?r = QUrl_fromString ''https://www.example.org/new''"
    by (simp add: completeReply_fields redirectTo_def)
  have v: "isValid (rp_redirectionTarget ?r)" unfolding t by (rule url_other)
  have h: "host (rp_redirectionTarget ?r) \<noteq> []" unfolding t by (simp add: url_other)
  have op: "dispatchable (rp_operation ?r)"
    by (simp add: completeReply_fields exampleGetReply_fields dispatchable_def)
  from redirect_with_host_verbatim [OF v h exampleGet_active op]
  show ?thesis
    using v by (auto simp: t url_other)
qed

text \<open>Claim C10: when the redirection target has an empty host, the URL of the
  follow-up request is parsed from the scheme and the host of the redirected request and
  the text of the target, so the follow-up request is the same whatever port and user
  info the URL of the redirected request has; the redirect of
  \<open>http://user:pw@example.com:8080/old\<close> to \<open>/new\<close> is followed to
  \<open>http://example.com/new\<close>, without port and user info.\<close>

theorem redirect_without_host_drops_port:
  assumes "isValid (rp_redirectionTarget reply)" "host (rp_redirectionTarget reply) = []"
    "m_activeReply d = Some a" "dispatchable (rp_operation reply)"
  shows "(\<exists>rq. followUpRequest reply d = Some rq
       \<and> rq_url rq = QUrl_fromString
           (scheme (rq_url (rp_request reply)) @ ''://'' @ host (rq_url (rp_request reply))
            @ toString (rp_redirectionTarget reply)))
     \<and> followUpRequest
         (reply\<lparr>rp_request := setUrl ((rq_url (rp_request reply))\<lparr>u_port := p, u_userInfo := ui\<rparr>)
                                (rp_request reply)\<rparr>) d
       = followUpRequest reply d
     \<and> activeUrlAfter [Finish (redirectTo (QUrl_fromString ''/new''))] exampleGetPort
       = Some (QUrl_fromString ''http://example.com/new'')
     \<and> u_port (QUrl_fromString ''http://user:pw@example.com:8080/old'') = Some 8080
     \<and> u_userInfo (QUrl_fromString ''http://user:pw@example.com:8080/old'') = ''user:pw''
     \<and> u_port (QUrl_fromString ''http://example.com/new'') = None
     \<and> u_userInfo (QUrl_fromString ''http://example.com/new'') = []"
proof -
  let ?r' = "reply\<lparr>rp_request :=
      setUrl ((rq_url (rp_request reply))\<lparr>u_port := p, u_userInfo := ui\<rparr>) (rp_request reply)\<rparr>"
  have v': "isValid (rp_redirectionTarget ?r')" using assms(1) by simp
  have op': "dispatchable (rp_operation ?r')" using assms(4) by simp
  have one: "\<exists>rq. followUpRequest reply d = Some rq
       \<and> rq_url rq = QUrl_fromString
           (scheme (rq_url (rp_request reply)) @ ''://'' @ host (rq_url (rp_request reply))
            @ toString (rp_redirectionTarget reply))"
    using assms(2)
    by (simp add: followUpRequest_def finished_redirect [OF assms(1,3,4)] runRequest_fields
        newReply_def setUrl_def redirectUrl_def)
  note f = finished_redirect [OF assms(1,3,4)]
  note f' = finished_redirect [OF v' assms(3) op']
  have two: "followUpRequest ?r' d = followUpRequest reply d"
    unfolding followUpRequest_def f f'
    using assms(2)
    by (simp add: runRequest_fields newReply_def setUrl_def redirectUrl_def scheme_def host_def)
  have act: "m_activeReply exampleGetPort
      = Some (newReply GetOperation
               (setUrl (QUrl_fromString ''http://user:pw@example.com:8080/old'') emptyRequest)
               None)"
    by (simp add: scenario_eval)
  have three: "activeUrlAfter [Finish (redirectTo (QUrl_fromString ''/new''))] exampleGetPort
       = Some (QUrl_fromString ''http://example.com/new'')"
    using activeUrlAfter_redirect [OF act _ url_new(1)]
    by (simp add: newReply_def dispatchable_def setUrl_def redirectUrl_def url_new url_old_port)
  show ?thesis
    using one two three by (simp add: url_old_port url_followed)
qed

theorem redirect_without_host_drops_port_witness:
  "isValid (rp_redirectionTarget (completeReply (redirectTo (QUrl_fromString ''/new''))
              exampleGetReply))
   \<and> host (rp_redirectionTarget (completeReply (redirectTo (QUrl_fromString ''/new''))
              exampleGetReply)) = []
   \<and> m_activeReply exampleGet = Some exampleGetReply
   \<and> dispatchable (rp_operation (completeReply (redirectTo (QUrl_fromString ''/new''))
              exampleGetReply))
   \<and> (\<exists>rq. followUpRequest (completeReply (redirectTo (QUrl_fromString ''/new''))
              exampleGetReply) exampleGet = Some rq
        \<and> rq_url rq = QUrl_fromString ''http://example.com/new'')
   \<and> followUpRequest
        ((completeReply (redirectTo (QUrl_fromString ''/new'')) exampleGetReply)
           \<lparr>rp_request := setUrl ((rq_url (rp_request
                 (completeReply (redirectTo (QUrl_fromString ''/new'')) exampleGetReply)))
                    \<lparr>u_port := Some 8080, u_userInfo := ''user:pw''\<rparr>)
              (rp_request (completeReply (redirectTo (QUrl_fromString ''/new''))
                 exampleGetReply))\<rparr>) exampleGet
      = followUpRequest (completeReply (redirectTo (QUrl_fromString ''/new'')) exampleGetReply)
          exampleGet"
proof -
  let ?r = "completeReply (redirectTo (QUrl_fromString ''/new'')) exampleGetReply"
  have t: "rp_redirectionTarget ?r = QUrl_fromString ''/new''"
    by (simp add: completeReply_fields redirectTo_def)
  have v: "isValid (rp_redirectionTarget ?r)" unfolding t by (rule url_new)
  have h: "host (rp_redirectionTarget ?r) = []" unfolding t by (rule url_new)
  have op: "dispatchable (rp_operation ?r)"
    by (simp add: completeReply_fields exampleGetReply_fields dispatchable_def)
  have u: "rq_url (rp_request ?r) = QUrl_fromString ''http://example.com/old''"
    by (simp add: completeReply_fields exampleGetReply_fields)
  from redirect_without_host_drops_port [OF v h exampleGet_active op,
      where p = "Some 8080" and ui = "''user:pw''"]
  show ?thesis
    using v h op exampleGet_active
    by (auto simp: t u url_new url_old)
qed

end
